theory Spec2Isabelle
  imports Complex_Main "HOL-Library.Sublist" "HOL-Library.State_Monad"
begin

section \<open>The calculator of calculator\_v2\<close>

text \<open>
  A shallow embedding of \<^verbatim>\<open>calculator_v2/calculator.py\<close> (class \<open>Calculator\<close>) and of
  the \<open>/calculate\<close> endpoint of \<^verbatim>\<open>calculator_v2/main.py\<close>.

  \<^bold>\<open>Numbers.\<close> The operands are Python floats. Their arithmetic is not defined in the
  repository, so the number type is a parameter \<open>'a\<close> of the whole development: any type
  that carries \<open>+\<close>, \<open>-\<close>, \<open>*\<close>, \<open>/\<close> and \<open>0\<close>, with no law assumed of them. The source's
  \<^verbatim>\<open>a + b\<close> is the \<open>+\<close> of that type, and its test \<^verbatim>\<open>b == 0\<close> is equality with the \<open>0\<close>
  of that type: the floats are read up to \<^verbatim>\<open>==\<close>, so that \<open>0\<close> stands for both of their
  zeros. Examples with numerals are evaluated at type \<open>real\<close>.

  \<^bold>\<open>Strings.\<close> A Python \<open>str\<close> is a sequence of code points. A HOL \<open>char\<close> holds a code
  point below 256, so \<open>string\<close> models the strings over that alphabet.

  \<^bold>\<open>Exceptions.\<close> A raised exception is a value of type \<open>error\<close>; a function that can
  raise returns \<open>error + 'a\<close>, with \<open>Inl\<close> for the exception.
\<close>

subsection \<open>Strings: \<open>str.lower\<close> and \<open>str.join\<close>\<close>

text \<open>
  \<^verbatim>\<open>str.lower()\<close> on code points below 256: the upper-case letters are \<open>A\<close> to \<open>Z\<close>
  (65 to 90) and the Latin-1 capitals 192 to 222 without the multiplication sign 215; each
  has its lower-case form 32 places higher. Every other code point below 256 is its own
  lower-case form.
\<close>

definition lower_char :: "char \<Rightarrow> char" where
  "lower_char c =
     (let n = of_char c :: nat
      in if 65 \<le> n \<and> n \<le> 90 then char_of (n + 32)
         else if 192 \<le> n \<and> n \<le> 214 then char_of (n + 32)
         else if 216 \<le> n \<and> n \<le> 222 then char_of (n + 32)
         else c)"

definition lower :: "string \<Rightarrow> string" where
  "lower s = map lower_char s"

text \<open>\<^verbatim>\<open>sep.join(xs)\<close>: the elements of \<open>xs\<close> with \<open>sep\<close> between neighbours.\<close>

fun join :: "string \<Rightarrow> string list \<Rightarrow> string" where
  "join sep [] = []"
| "join sep [x] = x"
| "join sep (x # y # ys) = x @ sep @ join sep (y # ys)"

subsection \<open>calculator.py: class \<open>Calculator\<close>\<close>

text \<open>
  The exceptions of the two modules: \<open>ZeroDivisionError\<close> and \<open>ValueError\<close> are raised by
  the calculator, each with its message; \<open>Exception\<close> stands for any other exception, which
  the endpoint catches in its last \<^verbatim>\<open>except\<close> clause.
\<close>

datatype error =
    ZeroDivisionError string
  | ValueError string
  | Exception string

text \<open>
  The instance has one attribute, \<^verbatim>\<open>_operations\<close>: a dictionary from operation name to
  bound method. It is an association list, since the order of the keys is observable
  (\<^verbatim>\<open>keys()\<close> lists them in insertion order). A bound method (the annotation's
  \<^verbatim>\<open>Callable[[float, float], float]\<close>) is a function of the two operands that returns a
  number or raises.
\<close>

type_synonym 'a callable = "'a \<Rightarrow> 'a \<Rightarrow> error + 'a"

record 'a Calculator =
  operations :: "(string \<times> 'a callable) list"

definition Calculator_add :: "'a::{plus,minus,times,inverse,zero} callable" where
  "Calculator_add a b = Inr (a + b)"

definition Calculator_subtract :: "'a::{plus,minus,times,inverse,zero} callable" where
  "Calculator_subtract a b = Inr (a - b)"

definition Calculator_multiply :: "'a::{plus,minus,times,inverse,zero} callable" where
  "Calculator_multiply a b = Inr (a * b)"

definition Calculator_divide :: "'a::{plus,minus,times,inverse,zero} callable" where
  "Calculator_divide a b =
     (if b = 0 then Inl (ZeroDivisionError ''Cannot divide by zero'')
      else Inr (a / b))"

text \<open>\<^verbatim>\<open>__init__\<close>: the instance that \<^verbatim>\<open>Calculator()\<close> builds.\<close>

definition Calculator_init :: "'a::{plus,minus,times,inverse,zero} Calculator" where
  "Calculator_init =
     \<lparr>operations =
        [(''add'', Calculator_add),
         (''subtract'', Calculator_subtract),
         (''multiply'', Calculator_multiply),
         (''divide'', Calculator_divide)]\<rparr>"

text \<open>\<^verbatim>\<open>self._operations.keys()\<close>\<close>

definition keys :: "'a Calculator \<Rightarrow> string list" where
  "keys self = map fst (operations self)"

definition Calculator_calculate :: "'a Calculator \<Rightarrow> string \<Rightarrow> 'a \<Rightarrow> 'a \<Rightarrow> error + 'a" where
  "Calculator_calculate self operation num1 num2 =
     (let operation = lower operation
      in case map_of (operations self) operation of
           None \<Rightarrow>
             Inl (ValueError
                   (''Unsupported operation: '' @ operation @ ''. '' @
                    ''Supported operations: '' @ join '', '' (keys self)))
         | Some operation_method \<Rightarrow> operation_method num1 num2)"

definition Calculator_get_supported_operations :: "'a Calculator \<Rightarrow> string list" where
  "Calculator_get_supported_operations self = keys self"

subsection \<open>Calls on an instance\<close>

text \<open>
  A method call takes the instance and gives back what it returns or raises, together with
  the instance after the call. No method body of the class assigns to \<^verbatim>\<open>self\<close> or to
  \<^verbatim>\<open>self._operations\<close>, and \<^verbatim>\<open>get_supported_operations\<close> returns a fresh list, so each
  call gives back the instance it was given.
\<close>

datatype 'a call =
    Add 'a 'a
  | Subtract 'a 'a
  | Multiply 'a 'a
  | Divide 'a 'a
  | Calculate string 'a 'a
  | Get_supported_operations

datatype 'a outcome =
    Number "error + 'a"
  | Names "string list"

fun invoke ::
  "'a::{plus,minus,times,inverse,zero} Calculator \<Rightarrow> 'a call \<Rightarrow> 'a outcome \<times> 'a Calculator" where
  "invoke self (Add a b) = (Number (Calculator_add a b), self)"
| "invoke self (Subtract a b) = (Number (Calculator_subtract a b), self)"
| "invoke self (Multiply a b) = (Number (Calculator_multiply a b), self)"
| "invoke self (Divide a b) = (Number (Calculator_divide a b), self)"
| "invoke self (Calculate operation num1 num2) =
     (Number (Calculator_calculate self operation num1 num2), self)"
| "invoke self Get_supported_operations =
     (Names (Calculator_get_supported_operations self), self)"

text \<open>The instance after a sequence of calls, made one after the other.\<close>

fun invoke_all ::
  "'a::{plus,minus,times,inverse,zero} Calculator \<Rightarrow> 'a call list \<Rightarrow> 'a Calculator" where
  "invoke_all self [] = self"
| "invoke_all self (c # cs) = invoke_all (snd (invoke self c)) cs"

subsection \<open>calculator.py again: the instance as an object that calls could change\<close>

text \<open>
  The functions above read the instance and have no way to write it. To ask whether a call
  changes the instance, the bodies of the class are transcribed a second time, as
  computations on the instance: a body is run on the instance it is called on, and gives
  what it returns or raises together with the instance as the body left it.

  The instance is its attribute \<^verbatim>\<open>_operations\<close>. The dictionary's values are the bound
  methods \<^verbatim>\<open>self.add\<close>, \<^verbatim>\<open>self.subtract\<close>, \<^verbatim>\<open>self.multiply\<close> and \<^verbatim>\<open>self.divide\<close>; a bound
  method names a function of the class, and calling it runs that function's body on the
  instance.
\<close>

datatype bound_method = Self_add | Self_subtract | Self_multiply | Self_divide

record Calculator_object =
  attr_operations :: "(string \<times> bound_method) list"

type_synonym 'r body = "(Calculator_object, 'r) state"

text \<open>
  The statements and expressions the bodies are made of. \<^verbatim>\<open>return v\<close> and \<^verbatim>\<open>raise e\<close> end
  the body and leave the instance as it is at that point; \<^verbatim>\<open>self._operations\<close> reads the
  attribute. An assignment to the attribute would be \<open>State_Monad.update\<close>; only
  \<^verbatim>\<open>__init__\<close> has one.
\<close>

definition returns :: "'r \<Rightarrow> (error + 'r) body" where
  "returns v = State_Monad.return (Inr v)"

definition raises :: "error \<Rightarrow> (error + 'r) body" where
  "raises e = State_Monad.return (Inl e)"

definition self_operations :: "((string \<times> bound_method) list) body" where
  "self_operations = do { self \<leftarrow> State_Monad.get; State_Monad.return (attr_operations self) }"

text \<open>\<^verbatim>\<open>__init__\<close>, run on the new object: its one statement assigns the attribute.\<close>

definition body_init :: "unit body" where
  "body_init =
     State_Monad.update
       (\<lambda>self. self\<lparr>attr_operations :=
          [(''add'', Self_add),
           (''subtract'', Self_subtract),
           (''multiply'', Self_multiply),
           (''divide'', Self_divide)]\<rparr>)"

definition body_add :: "'a::{plus,minus,times,inverse,zero} \<Rightarrow> 'a \<Rightarrow> (error + 'a) body" where
  "body_add a b = returns (a + b)"

definition body_subtract ::
  "'a::{plus,minus,times,inverse,zero} \<Rightarrow> 'a \<Rightarrow> (error + 'a) body" where
  "body_subtract a b = returns (a - b)"

definition body_multiply ::
  "'a::{plus,minus,times,inverse,zero} \<Rightarrow> 'a \<Rightarrow> (error + 'a) body" where
  "body_multiply a b = returns (a * b)"

definition body_divide ::
  "'a::{plus,minus,times,inverse,zero} \<Rightarrow> 'a \<Rightarrow> (error + 'a) body" where
  "body_divide a b =
     (if b = 0 then raises (ZeroDivisionError ''Cannot divide by zero'')
      else returns (a / b))"

text \<open>Calling a bound method: the body of the function it names.\<close>

fun call_bound ::
  "bound_method \<Rightarrow> 'a::{plus,minus,times,inverse,zero} \<Rightarrow> 'a \<Rightarrow> (error + 'a) body" where
  "call_bound Self_add a b = body_add a b"
| "call_bound Self_subtract a b = body_subtract a b"
| "call_bound Self_multiply a b = body_multiply a b"
| "call_bound Self_divide a b = body_divide a b"

definition body_calculate ::
  "string \<Rightarrow> 'a::{plus,minus,times,inverse,zero} \<Rightarrow> 'a \<Rightarrow> (error + 'a) body" where
  "body_calculate operation num1 num2 = do {
     let operation = lower operation;
     ops \<leftarrow> self_operations;
     case map_of ops operation of
       None \<Rightarrow>
         raises (ValueError
                  (''Unsupported operation: '' @ operation @ ''. '' @
                   ''Supported operations: '' @ join '', '' (map fst ops)))
     | Some operation_method \<Rightarrow> call_bound operation_method num1 num2
   }"

definition body_get_supported_operations :: "(string list) body" where
  "body_get_supported_operations = do {
     ops \<leftarrow> self_operations;
     State_Monad.return (map fst ops)
   }"

text \<open>
  A call from outside, on the instance \<open>self\<close>: the outcome and the instance afterwards,
  which is whatever the body left.
\<close>

fun perform ::
  "Calculator_object \<Rightarrow> 'a::{plus,minus,times,inverse,zero} call \<Rightarrow> 'a outcome \<times> Calculator_object" where
  "perform self (Add a b) =
     (case run_state (body_add a b) self of (r, self') \<Rightarrow> (Number r, self'))"
| "perform self (Subtract a b) =
     (case run_state (body_subtract a b) self of (r, self') \<Rightarrow> (Number r, self'))"
| "perform self (Multiply a b) =
     (case run_state (body_multiply a b) self of (r, self') \<Rightarrow> (Number r, self'))"
| "perform self (Divide a b) =
     (case run_state (body_divide a b) self of (r, self') \<Rightarrow> (Number r, self'))"
| "perform self (Calculate operation num1 num2) =
     (case run_state (body_calculate operation num1 num2) self of
        (r, self') \<Rightarrow> (Number r, self'))"
| "perform self Get_supported_operations =
     (case run_state body_get_supported_operations self of
        (names, self') \<Rightarrow> (Names names, self'))"

fun perform_all ::
  "Calculator_object \<Rightarrow> 'a::{plus,minus,times,inverse,zero} call list \<Rightarrow> Calculator_object" where
  "perform_all self [] = self"
| "perform_all self (c # cs) = perform_all (snd (perform self c)) cs"

text \<open>\<^verbatim>\<open>Calculator()\<close>: a new object, on which \<^verbatim>\<open>__init__\<close> has run.\<close>

definition new_instance :: Calculator_object where
  "new_instance = snd (run_state body_init \<lparr>attr_operations = []\<rparr>)"

subsection \<open>main.py: the \<open>/calculate\<close> endpoint\<close>

datatype OperationType = ADD | SUBTRACT | MULTIPLY | DIVIDE

text \<open>\<^verbatim>\<open>member.value\<close>\<close>

fun OperationType_value :: "OperationType \<Rightarrow> string" where
  "OperationType_value ADD = ''add''"
| "OperationType_value SUBTRACT = ''subtract''"
| "OperationType_value MULTIPLY = ''multiply''"
| "OperationType_value DIVIDE = ''divide''"

text \<open>
  \<^verbatim>\<open>OperationType(s)\<close>: the member whose value is \<open>s\<close>, if there is one. This is how the
  \<open>operation\<close> field of a request body is validated.
\<close>

definition OperationType_of_value :: "string \<Rightarrow> OperationType option" where
  "OperationType_of_value s =
     (if s = ''add'' then Some ADD
      else if s = ''subtract'' then Some SUBTRACT
      else if s = ''multiply'' then Some MULTIPLY
      else if s = ''divide'' then Some DIVIDE
      else None)"

record 'a CalculationRequest =
  operation :: OperationType
  num1 :: 'a
  num2 :: 'a

record 'a CalculationResponse =
  operation :: string
  num1 :: 'a
  num2 :: 'a
  result :: 'a

definition HTTP_200_OK :: nat where
  "HTTP_200_OK = 200"

definition HTTP_400_BAD_REQUEST :: nat where
  "HTTP_400_BAD_REQUEST = 400"

definition HTTP_422_UNPROCESSABLE_ENTITY :: nat where
  "HTTP_422_UNPROCESSABLE_ENTITY = 422"

definition HTTP_500_INTERNAL_SERVER_ERROR :: nat where
  "HTTP_500_INTERNAL_SERVER_ERROR = 500"

text \<open>
  What a request is answered with: the response model with the status code of the route,
  an \<open>HTTPException\<close> with its status code and detail, or the rejection of a body that does
  not validate, with its status code.
\<close>

datatype 'a http_response =
    Response nat "'a CalculationResponse"
  | HTTPException nat string
  | RequestValidationError nat

text \<open>The module's instance, \<^verbatim>\<open>calculator = Calculator()\<close>.\<close>

definition calculator :: "'a::{plus,minus,times,inverse,zero} Calculator" where
  "calculator = Calculator_init"

text \<open>The handler of \<^verbatim>\<open>POST /calculate\<close>, with its three \<^verbatim>\<open>except\<close> clauses in order.\<close>

definition calculate ::
  "'a::{plus,minus,times,inverse,zero} CalculationRequest \<Rightarrow> 'a http_response" where
  "calculate request =
     (case Calculator_calculate calculator
             (OperationType_value (CalculationRequest.operation request))
             (CalculationRequest.num1 request)
             (CalculationRequest.num2 request) of
        Inr res \<Rightarrow>
          Response HTTP_200_OK
            \<lparr>operation = OperationType_value (CalculationRequest.operation request),
             num1 = CalculationRequest.num1 request,
             num2 = CalculationRequest.num2 request,
             result = res\<rparr>
      | Inl (ZeroDivisionError e) \<Rightarrow> HTTPException HTTP_400_BAD_REQUEST e
      | Inl (ValueError e) \<Rightarrow> HTTPException HTTP_400_BAD_REQUEST e
      | Inl (Exception e) \<Rightarrow>
          HTTPException HTTP_500_INTERNAL_SERVER_ERROR
            (''An unexpected error occurred: '' @ e))"

text \<open>
  The route end to end. The framework validates the body against \<open>CalculationRequest\<close>
  before it calls the handler: the \<open>operation\<close> string has to be the value of a member of
  \<open>OperationType\<close>. A body that does not validate is answered with status 422 (the
  handler's docstring: \<^verbatim>\<open>HTTPException 422: If invalid parameters (handled by Pydantic)\<close>)
  and the handler is not called. The two operands are taken as numbers already.
\<close>

definition post_calculate ::
  "string \<Rightarrow> 'a \<Rightarrow> 'a \<Rightarrow> 'a::{plus,minus,times,inverse,zero} http_response" where
  "post_calculate body_operation body_num1 body_num2 =
     (case OperationType_of_value body_operation of
        None \<Rightarrow> RequestValidationError HTTP_422_UNPROCESSABLE_ENTITY
      | Some member \<Rightarrow>
          calculate
            \<lparr>CalculationRequest.operation = member, num1 = body_num1, num2 = body_num2\<rparr>)"

section \<open>Properties\<close>

subsection \<open>Helper lemmas\<close>

lemma lower_char_idem: "lower_char (lower_char c) = lower_char c"
  by (simp add: lower_char_def Let_def)

lemma lower_idem: "lower (lower s) = lower s"
  by (simp add: lower_def lower_char_idem)

lemma lower_keys:
  "lower ''add'' = ''add''" "lower ''subtract'' = ''subtract''"
  "lower ''multiply'' = ''multiply''" "lower ''divide'' = ''divide''"
  by code_simp+

lemma keys_init: "keys Calculator_init = [''add'', ''subtract'', ''multiply'', ''divide'']"
  by (simp add: keys_def Calculator_init_def)

lemma join_keys:
  "join '', '' [''add'', ''subtract'', ''multiply'', ''divide''] =
     ''add, subtract, multiply, divide''"
  by simp

lemma lookup_init:
  "map_of (operations Calculator_init) k =
     (if k = ''add'' then Some Calculator_add
      else if k = ''subtract'' then Some Calculator_subtract
      else if k = ''multiply'' then Some Calculator_multiply
      else if k = ''divide'' then Some Calculator_divide
      else None)"
  by (simp add: Calculator_init_def)

text \<open>The dispatch of \<open>calculate\<close> on a fresh instance, branch by branch.\<close>

lemma calculate_init:
  "Calculator_calculate Calculator_init s a b =
     (if lower s = ''add'' then Calculator_add a b
      else if lower s = ''subtract'' then Calculator_subtract a b
      else if lower s = ''multiply'' then Calculator_multiply a b
      else if lower s = ''divide'' then Calculator_divide a b
      else Inl (ValueError
             (''Unsupported operation: '' @ lower s @
              ''. Supported operations: add, subtract, multiply, divide'')))"
  unfolding Calculator_calculate_def Let_def lookup_init keys_init join_keys
  by simp

lemma invoke_same: "snd (invoke self c) = self"
  by (cases c) simp_all

lemma invoke_all_same: "invoke_all self cs = self"
  by (induction cs arbitrary: self) (simp_all add: invoke_same)

lemma lower_examples:
  "lower ''POWER'' = ''power''" "lower ''ADD'' = ''add''" "lower ''power'' = ''power''"
  by code_simp+

text \<open>The module's instance dispatches each of the four values to its own function.\<close>

lemma calculate_member:
  "Calculator_calculate calculator ''add'' a b = Calculator_add a b"
  "Calculator_calculate calculator ''subtract'' a b = Calculator_subtract a b"
  "Calculator_calculate calculator ''multiply'' a b = Calculator_multiply a b"
  "Calculator_calculate calculator ''divide'' a b = Calculator_divide a b"
  by (simp_all add: calculator_def calculate_init lower_keys)

subsection \<open>The arithmetic engine\<close>

text \<open>
  C1. For all numbers \<open>a\<close> and \<open>b\<close>, \<open>calculate("add", a, b)\<close> returns \<open>a + b\<close>,
  \<open>calculate("subtract", a, b)\<close> returns \<open>a - b\<close> and \<open>calculate("multiply", a, b)\<close> returns
  \<open>a * b\<close>.
\<close>

theorem calculate_add_subtract_multiply:
  "Calculator_calculate Calculator_init ''add'' a b = Inr (a + b) \<and>
   Calculator_calculate Calculator_init ''subtract'' a b = Inr (a - b) \<and>
   Calculator_calculate Calculator_init ''multiply'' a b = Inr (a * b)"
  by (simp add: calculate_init lower_keys Calculator_add_def Calculator_subtract_def
      Calculator_multiply_def)

text \<open>
  C2. For all numbers \<open>a\<close> and \<open>b\<close> with \<open>b \<noteq> 0\<close>, \<open>calculate("divide", a, b)\<close> does not
  raise and returns \<open>a / b\<close>.
\<close>

theorem calculate_divide_nonzero:
  assumes "b \<noteq> 0"
  shows "Calculator_calculate Calculator_init ''divide'' a b = Inr (a / b)"
  using assms by (simp add: calculate_init lower_keys Calculator_divide_def)

theorem calculate_divide_nonzero_witness:
  "(5::real) \<noteq> 0 \<and> Calculator_calculate Calculator_init ''divide'' (10::real) 5 = Inr 2"
  using calculate_divide_nonzero [of "5::real" 10] by simp

text \<open>
  C3. For every number \<open>a\<close>, \<open>calculate("divide", a, 0)\<close> raises \<open>ZeroDivisionError\<close> with
  the message "Cannot divide by zero"; it returns no result.
\<close>

theorem calculate_divide_by_zero:
  "Calculator_calculate Calculator_init ''divide'' a 0 =
     Inl (ZeroDivisionError ''Cannot divide by zero'')"
  by (simp add: calculate_init lower_keys Calculator_divide_def)

text \<open>
  C4. For every string \<open>s\<close> whose lower-case form is none of \<open>add\<close>, \<open>subtract\<close>,
  \<open>multiply\<close>, \<open>divide\<close>, and for all numbers \<open>a\<close> and \<open>b\<close>, \<open>calculate(s, a, b)\<close> raises
  \<open>ValueError\<close>; its message carries the key that was looked up (the lower-case form of
  \<open>s\<close>) and lists the four valid keys in order.
\<close>

theorem calculate_unsupported_operation:
  assumes "lower s \<notin> {''add'', ''subtract'', ''multiply'', ''divide''}"
  shows "Calculator_calculate Calculator_init s a b =
     Inl (ValueError
           (''Unsupported operation: '' @ lower s @
            ''. Supported operations: add, subtract, multiply, divide''))"
  using assms by (simp add: calculate_init)

theorem calculate_unsupported_operation_witness:
  "lower ''modulo'' \<notin> {''add'', ''subtract'', ''multiply'', ''divide''} \<and>
   Calculator_calculate Calculator_init ''modulo'' (7::real) 2 =
     Inl (ValueError
           ''Unsupported operation: modulo. Supported operations: add, subtract, multiply, divide'')"
proof -
  have l: "lower ''modulo'' = ''modulo''" by code_simp
  have h: "lower ''modulo'' \<notin> {''add'', ''subtract'', ''multiply'', ''divide''}"
    by (simp add: l)
  show ?thesis
    using h calculate_unsupported_operation [OF h, of "7::real" 2] by (simp add: l)
qed

text \<open>
  C5. \<open>calculate\<close> is case-insensitive in its operation argument: for every string \<open>s\<close> and
  all numbers \<open>a\<close> and \<open>b\<close>, \<open>calculate(s, a, b)\<close> has the outcome of
  \<open>calculate(lower(s), a, b)\<close>, the same result or the same exception; and
  \<open>calculate("ADD", 2, 3)\<close> and \<open>calculate("add", 2, 3)\<close> are both 5.
\<close>

theorem calculate_case_insensitive:
  "Calculator_calculate self s a b = Calculator_calculate self (lower s) a b \<and>
   Calculator_calculate Calculator_init ''ADD'' (2::real) 3 = Inr 5 \<and>
   Calculator_calculate Calculator_init ''add'' (2::real) 3 = Inr 5"
proof -
  have "Calculator_calculate self s a b = Calculator_calculate self (lower s) a b"
    by (simp add: Calculator_calculate_def lower_idem)
  moreover have "Calculator_calculate Calculator_init ''ADD'' (2::real) 3 = Inr 5"
    by (simp add: calculate_init lower_examples Calculator_add_def)
  moreover have "Calculator_calculate Calculator_init ''add'' (2::real) 3 = Inr 5"
    by (simp add: calculate_init lower_keys Calculator_add_def)
  ultimately show ?thesis by simp
qed

text \<open>
  C6. \<open>get_supported_operations()\<close> returns exactly the list \<open>add\<close>, \<open>subtract\<close>,
  \<open>multiply\<close>, \<open>divide\<close>, in that order, on a fresh instance and after any sequence of calls
  on it.
\<close>

theorem get_supported_operations_fixed:
  "Calculator_get_supported_operations
     (Calculator_init :: 'a::{plus,minus,times,inverse,zero} Calculator) =
     [''add'', ''subtract'', ''multiply'', ''divide''] \<and>
   Calculator_get_supported_operations
     (invoke_all (Calculator_init :: 'a Calculator) cs) =
     [''add'', ''subtract'', ''multiply'', ''divide'']"
  by (simp add: Calculator_get_supported_operations_def keys_init invoke_all_same)

text \<open>
  C10. When \<open>calculate\<close> raises the unsupported-operation error, the message reports the
  lower-case form of the operation argument: for every unrecognised \<open>s\<close> the message begins
  "Unsupported operation: ", then \<open>lower(s)\<close>, then ". "; and where \<open>s\<close> differs from
  its lower-case form, the message is not the one that would name \<open>s\<close> as it was passed.
\<close>

theorem unsupported_message_reports_lowercase:
  assumes "lower s \<notin> {''add'', ''subtract'', ''multiply'', ''divide''}"
  shows "\<exists>msg. Calculator_calculate Calculator_init s a b = Inl (ValueError msg) \<and>
           prefix (''Unsupported operation: '' @ lower s @ ''. '') msg \<and>
           (lower s \<noteq> s \<longrightarrow>
              msg \<noteq> ''Unsupported operation: '' @ s @
                      ''. Supported operations: add, subtract, multiply, divide'')"
  using assms by (simp add: calculate_init)

theorem unsupported_message_reports_lowercase_witness:
  "lower ''POWER'' \<notin> {''add'', ''subtract'', ''multiply'', ''divide''} \<and>
   (\<exists>msg. Calculator_calculate Calculator_init ''POWER'' (2::real) 3 = Inl (ValueError msg) \<and>
      prefix ''Unsupported operation: power. '' msg \<and>
      msg \<noteq> ''Unsupported operation: POWER. Supported operations: add, subtract, multiply, divide'')"
proof -
  have h: "lower ''POWER'' \<notin> {''add'', ''subtract'', ''multiply'', ''divide''}"
    by (simp add: lower_examples)
  show ?thesis
    using h unsupported_message_reports_lowercase [OF h, of "2::real" 3]
    by (simp add: lower_examples)
qed

subsection \<open>The instance across calls\<close>

text \<open>No body of the class leaves the instance other than it found it.\<close>

lemma body_leaves_instance:
  "snd (run_state (body_add a b) self) = self"
  "snd (run_state (body_subtract a b) self) = self"
  "snd (run_state (body_multiply a b) self) = self"
  "snd (run_state (body_divide a b) self) = self"
  by (simp_all add: body_add_def body_subtract_def body_multiply_def body_divide_def
      returns_def raises_def)

lemma call_bound_leaves_instance: "snd (run_state (call_bound m a b) self) = self"
  by (cases m) (simp_all add: body_leaves_instance)

lemma calculate_leaves_instance: "snd (run_state (body_calculate s a b) self) = self"
  by (simp add: body_calculate_def self_operations_def raises_def Let_def
      call_bound_leaves_instance split: option.split)

lemma get_supported_operations_leaves_instance:
  "snd (run_state body_get_supported_operations self) = self"
  by (simp add: body_get_supported_operations_def self_operations_def)

lemma perform_leaves_instance: "snd (perform self c) = self"
proof (cases c)
  case (Add a b)
  then show ?thesis
    using body_leaves_instance(1) [of a b self] by (simp add: split_beta)
next
  case (Subtract a b)
  then show ?thesis
    using body_leaves_instance(2) [of a b self] by (simp add: split_beta)
next
  case (Multiply a b)
  then show ?thesis
    using body_leaves_instance(3) [of a b self] by (simp add: split_beta)
next
  case (Divide a b)
  then show ?thesis
    using body_leaves_instance(4) [of a b self] by (simp add: split_beta)
next
  case (Calculate s a b)
  then show ?thesis
    using calculate_leaves_instance [of s a b self] by (simp add: split_beta)
next
  case Get_supported_operations
  then show ?thesis
    using get_supported_operations_leaves_instance [of self] by (simp add: split_beta)
qed

lemma perform_all_leaves_instance: "perform_all self cs = self"
  by (induction cs arbitrary: self) (simp_all add: perform_leaves_instance)

text \<open>Construction is the one place where the attribute is assigned.\<close>

lemma body_init_assigns:
  "snd (run_state body_init \<lparr>attr_operations = []\<rparr>) \<noteq> \<lparr>attr_operations = []\<rparr>"
  by (simp add: body_init_def State_Monad.update_def State_Monad.bind_def
      State_Monad.get_def State_Monad.set_def)

lemma new_instance_operations:
  "attr_operations new_instance =
     [(''add'', Self_add), (''subtract'', Self_subtract),
      (''multiply'', Self_multiply), (''divide'', Self_divide)]"
  by (simp add: new_instance_def body_init_def State_Monad.update_def State_Monad.bind_def
      State_Monad.get_def State_Monad.set_def)

text \<open>
  On a new instance the bodies return and raise what the functions of the first
  transcription do.
\<close>

lemma body_calculate_result:
  "fst (run_state (body_calculate s a b) new_instance) =
     Calculator_calculate Calculator_init s a b"
  by (simp add: body_calculate_def self_operations_def new_instance_operations Let_def
      calculate_init raises_def returns_def body_add_def body_subtract_def body_multiply_def
      body_divide_def Calculator_add_def Calculator_subtract_def Calculator_multiply_def
      Calculator_divide_def)

lemma body_get_supported_operations_result:
  "fst (run_state body_get_supported_operations new_instance) =
     Calculator_get_supported_operations Calculator_init"
  by (simp add: body_get_supported_operations_def self_operations_def new_instance_operations
      Calculator_get_supported_operations_def keys_init)

text \<open>
  C9. The operation-to-function mapping does not change after construction: after any
  sequence of calls to \<open>calculate\<close>, \<open>get_supported_operations\<close> and the four arithmetic
  functions, the mapping of the instance is the one it had before the sequence (on a new
  instance: the four keys in order, each with its bound function), a call has the outcome
  it would have had before the sequence, and \<open>calculate\<close> on a new instance has, after any
  such sequence, the outcome that the dispatch on the constructed mapping gives.
\<close>

theorem operations_immutable:
  "attr_operations (perform_all self cs) = attr_operations self \<and>
   fst (perform (perform_all self cs) c) = fst (perform self c) \<and>
   attr_operations (perform_all new_instance cs) =
     [(''add'', Self_add), (''subtract'', Self_subtract),
      (''multiply'', Self_multiply), (''divide'', Self_divide)] \<and>
   fst (perform (perform_all new_instance cs) (Calculate s a b)) =
     Number (Calculator_calculate Calculator_init s a b)"
proof -
  have same: "perform_all self cs = self" "perform_all new_instance cs = new_instance"
    by (rule perform_all_leaves_instance)+
  have "fst (perform new_instance (Calculate s a b)) =
      Number (fst (run_state (body_calculate s a b) new_instance))"
    by (simp add: split_beta)
  then show ?thesis
    by (simp add: same new_instance_operations body_calculate_result)
qed

subsection \<open>The endpoint\<close>

text \<open>
  C8. For every validated request other than a division by zero, the handler of
  \<open>/calculate\<close> returns a response with status 200 whose \<open>operation\<close> is the value of the
  request's operation, whose \<open>num1\<close> and \<open>num2\<close> are the request's operands and whose
  \<open>result\<close> is what the calculator returned.
\<close>

theorem calculate_endpoint_success:
  assumes "\<not> (CalculationRequest.operation request = DIVIDE \<and>
              CalculationRequest.num2 request = 0)"
  shows "\<exists>r. Calculator_calculate calculator
               (OperationType_value (CalculationRequest.operation request))
               (CalculationRequest.num1 request) (CalculationRequest.num2 request) = Inr r \<and>
             calculate request =
               Response HTTP_200_OK
                 \<lparr>operation = OperationType_value (CalculationRequest.operation request),
                  num1 = CalculationRequest.num1 request,
                  num2 = CalculationRequest.num2 request,
                  result = r\<rparr>"
  using assms
  by (cases "CalculationRequest.operation request")
     (simp_all add: calculate_def calculate_member Calculator_add_def Calculator_subtract_def
        Calculator_multiply_def Calculator_divide_def)

text \<open>The request \<open>add\<close>, 10, 5 is answered with \<open>add\<close>, 10, 5, 15.\<close>

theorem calculate_endpoint_success_witness:
  "\<not> (ADD = DIVIDE \<and> (5::real) = 0) \<and>
   calculate \<lparr>CalculationRequest.operation = ADD, num1 = 10::real, num2 = 5\<rparr> =
     Response 200 \<lparr>operation = ''add'', num1 = 10, num2 = 5, result = 15\<rparr>"
  using calculate_endpoint_success
          [of "\<lparr>CalculationRequest.operation = ADD, num1 = 10::real, num2 = 5\<rparr>"]
  by (simp add: calculate_member Calculator_add_def HTTP_200_OK_def)

text \<open>
  C7, as amended. A \<open>POST /calculate\<close> request with operation \<open>power\<close> and operands 2 and 3
  is rejected when the body is validated, with status 422, since \<open>power\<close> is not the value
  of a member of \<open>OperationType\<close>; the handler is not called. The message "Unsupported
  operation: power" is what the calculator raises when it is called with \<open>power\<close> directly.
  A request that reaches the handler is answered with status 200 or with status 400 and
  "Cannot divide by zero".
\<close>

theorem post_calculate_power_rejected:
  "post_calculate ''power'' (2::real) 3 =
     RequestValidationError HTTP_422_UNPROCESSABLE_ENTITY \<and>
   Calculator_calculate calculator ''power'' (2::real) 3 =
     Inl (ValueError
           ''Unsupported operation: power. Supported operations: add, subtract, multiply, divide'') \<and>
   ((\<exists>r. calculate request = Response HTTP_200_OK r) \<or>
    calculate request = HTTPException HTTP_400_BAD_REQUEST ''Cannot divide by zero'')"
proof -
  have "post_calculate ''power'' (2::real) 3 =
     RequestValidationError HTTP_422_UNPROCESSABLE_ENTITY"
    by (simp add: post_calculate_def OperationType_of_value_def)
  moreover have "Calculator_calculate calculator ''power'' (2::real) 3 =
     Inl (ValueError
           ''Unsupported operation: power. Supported operations: add, subtract, multiply, divide'')"
    by (simp add: calculator_def calculate_init lower_examples)
  moreover have "(\<exists>r. calculate request = Response HTTP_200_OK r) \<or>
    calculate request = HTTPException HTTP_400_BAD_REQUEST ''Cannot divide by zero''"
    by (cases "CalculationRequest.operation request")
       (simp_all add: calculate_def calculate_member Calculator_add_def Calculator_subtract_def
          Calculator_multiply_def Calculator_divide_def)
  ultimately show ?thesis by blast
qed

text \<open>
  The request with operation \<open>power\<close> is not answered with status 400 and a detail that
  contains "Unsupported operation: power".
\<close>

theorem post_calculate_power_counterexample:
  "\<not> (case post_calculate ''power'' (2::real) 3 of
         HTTPException code detail \<Rightarrow>
           code = HTTP_400_BAD_REQUEST \<and> sublist ''Unsupported operation: power'' detail
       | _ \<Rightarrow> False)"
  by (simp add: post_calculate_def OperationType_of_value_def)

end
